theory Spec2Isabelle
  imports Main
begin

section \<open>Data model of the lead-capture form\<close>

text \<open>
  The component \<^verbatim>\<open>LeadCaptureForm\<close> (src/components/LeadCaptureForm.tsx) keeps
  its state in eight \<^verbatim>\<open>useState\<close> cells and talks to two remote operations of
  the Supabase client. The types below follow the TypeScript types of the source.
\<close>

record LeadInput =
  name :: string
  email :: string
  industry :: string

text \<open>An element of \<^verbatim>\<open>leads\<close>: the three fields plus \<^verbatim>\<open>submitted_at\<close>.\<close>

record SubmittedLead = LeadInput +
  submitted_at :: string

record ValidationError =
  field :: string
  message :: string

subsection \<open>Values in positions typed \<^verbatim>\<open>string\<close>\<close>

text \<open>
  TypeScript's types are erased when the program runs, and the source fills some
  positions it types \<^verbatim>\<open>string\<close> from a value it has only cast to that type
  (line 28). Such a position holds a string, \<open>Str s\<close>, or any other value that is
  not \<^verbatim>\<open>undefined\<close>: a number such as \<^verbatim>\<open>42\<close>, a boolean, \<^verbatim>\<open>null\<close>, an
  object. Of such a value the code observes the truthiness only, so \<open>Other b\<close>
  stands for all of them with truthiness \<open>b\<close>. Where the position may also be
  \<^verbatim>\<open>undefined\<close> or absent (or, for a state cell, \<^verbatim>\<open>null\<close>) that is \<open>None\<close> of
  an option.
\<close>

datatype js_text = Str string | Other bool

fun js_text_truthy :: "js_text \<Rightarrow> bool" where
  "js_text_truthy (Str a) = (a \<noteq> [])"
| "js_text_truthy (Other b) = b"


text \<open>
  \<^verbatim>\<open>{ success: boolean; error?: string }\<close>: an absent \<^verbatim>\<open>error\<close> is \<open>None\<close>.
\<close>

record OperationResult =
  success :: bool
  error :: "js_text option"

subsection \<open>Values of type \<^verbatim>\<open>unknown\<close>\<close>

text \<open>
  A thrown value, or the \<^verbatim>\<open>error\<close> field of a response, is an arbitrary
  JavaScript value. The code observes four things of it: its truthiness, whether
  \<^verbatim>\<open>typeof\<close> is \<^verbatim>\<open>'object'\<close>, whether it has a \<^verbatim>\<open>message\<close> property, and
  that property's value. The source reads the property through the cast
  \<^verbatim>\<open>(err as { message?: string })\<close>, which checks nothing when the program
  runs: the value is \<^verbatim>\<open>undefined\<close> (\<open>None\<close>), a string, or anything else.
  Objects are plain data: testing for the property and reading it run no code.
  \<open>Primitive b\<close> stands for every value that is not an object and not
  \<^verbatim>\<open>undefined\<close> or \<^verbatim>\<open>null\<close> (booleans, numbers, strings, \<dots>), with its
  truthiness \<open>b\<close>; reading \<^verbatim>\<open>.message\<close> from it gives \<^verbatim>\<open>undefined\<close>.
\<close>

datatype message_prop = Absent | Present "js_text option"

datatype unknown = Undefined | Null | Primitive bool | Object message_prop

fun js_truthy :: "unknown \<Rightarrow> bool" where
  "js_truthy Undefined = False"
| "js_truthy Null = False"
| "js_truthy (Primitive b) = b"
| "js_truthy (Object p) = True"

fun js_typeof_object :: "unknown \<Rightarrow> bool" where
  "js_typeof_object Undefined = False"
| "js_typeof_object Null = True"
| "js_typeof_object (Primitive b) = False"
| "js_typeof_object (Object p) = True"

text \<open>\<^verbatim>\<open>'message' in err\<close>, evaluated by the source on truthy objects only.\<close>

fun js_in_message :: "unknown \<Rightarrow> bool" where
  "js_in_message (Object (Present m)) = True"
| "js_in_message v = False"

text \<open>
  The property read \<^verbatim>\<open>v.message\<close>. Both places of the source that read it do so
  behind a truthiness test, so the read never meets \<^verbatim>\<open>undefined\<close> or
  \<^verbatim>\<open>null\<close>, where JavaScript would throw.
\<close>

fun js_message :: "unknown \<Rightarrow> js_text option" where
  "js_message (Object (Present m)) = m"
| "js_message v = None"

text \<open>
  \<^verbatim>\<open>a || b\<close> for \<^verbatim>\<open>a\<close> typed \<^verbatim>\<open>string | undefined\<close>: the left operand
  when it is truthy, whatever it is, and \<^verbatim>\<open>b\<close> otherwise. \<^verbatim>\<open>undefined\<close> and
  the empty string are falsy.
\<close>

fun js_or :: "js_text option \<Rightarrow> js_text \<Rightarrow> js_text" where
  "js_or None b = b"
| "js_or (Some a) b = (if js_text_truthy a then a else b)"

text \<open>Truthiness of a \<^verbatim>\<open>string | null\<close> state cell, as in \<^verbatim>\<open>{emailError && ...}\<close>.\<close>

fun js_truthy_str :: "js_text option \<Rightarrow> bool" where
  "js_truthy_str None = False"
| "js_truthy_str (Some a) = js_text_truthy a"

subsection \<open>The remote boundary\<close>

text \<open>
  An awaited remote call either resolves to a response, of which the code destructures
  the \<^verbatim>\<open>error\<close> field, or rejects with a thrown value. (A response that cannot
  be destructured makes the \<^verbatim>\<open>await\<close> line throw a \<^verbatim>\<open>TypeError\<close> inside the same
  \<^verbatim>\<open>try\<close>: that is \<open>Rejected\<close> with an error object.)
\<close>

datatype remote_outcome = Resolved unknown | Rejected unknown

text \<open>
  The two operations of the client: \<^verbatim>\<open>supabase.from('leads').insert([...])\<close> and
  \<^verbatim>\<open>supabase.functions.invoke('send-confirmation', { body })\<close>. The client itself
  is outside the repository's sources, so its behaviour is a parameter.
\<close>

record supabase =
  from_leads_insert :: "LeadInput \<Rightarrow> remote_outcome"
  functions_invoke :: "LeadInput \<Rightarrow> remote_outcome"

text \<open>The trace of remote calls a handler issues, with the payload of each.\<close>

datatype remote_call = InsertLead LeadInput | InvokeSendConfirmation LeadInput

subsection \<open>Component state\<close>

record state =
  formData :: LeadInput
  validationErrors :: "ValidationError list"
  submitted :: bool
  isSubmitting :: bool
  isResendingEmail :: bool
  leadError :: "js_text option"
  emailError :: "js_text option"
  leads :: "SubmittedLead list"

text \<open>The initial values of the \<^verbatim>\<open>useState\<close> cells (lines 12 to 21).\<close>

definition initial_state :: state where
  "initial_state =
     \<lparr>formData = \<lparr>name = [], email = [], industry = []\<rparr>,
      validationErrors = [],
      submitted = False,
      isSubmitting = False,
      isResendingEmail = False,
      leadError = None,
      emailError = None,
      leads = []\<rparr>"

section \<open>Helpers of the component\<close>

text \<open>
  \<^verbatim>\<open>validationErrors.find(error => error.field === field)?.message\<close>
\<close>

definition getFieldError :: "state \<Rightarrow> string \<Rightarrow> string option" where
  "getFieldError s f =
     map_option message (find (\<lambda>e. field e = f) (validationErrors s))"

text \<open>
  \<^verbatim>\<open>const message = err && typeof err === 'object' && 'message' in err
       ? (err as { message?: string }).message : undefined;
  return message || fallbackMessage;\<close>
\<close>

definition getErrorMessage :: "unknown \<Rightarrow> string \<Rightarrow> js_text" where
  "getErrorMessage err fallbackMessage =
     (let msg = (if js_truthy err \<and> js_typeof_object err \<and> js_in_message err
                 then js_message err else None)
      in js_or msg (Str fallbackMessage))"

subsection \<open>\<^verbatim>\<open>saveLead\<close> and \<^verbatim>\<open>sendConfirmationEmail\<close>\<close>

text \<open>
  Each wrapper is a \<^verbatim>\<open>try\<close> around one awaited call, with a \<^verbatim>\<open>catch\<close>.
  The body of the \<^verbatim>\<open>try\<close>, from the point where the call settles, returns a result
  or throws (\<open>Inl\<close>); the wrapper as a whole is given the same sum type, so that
  a caller's own \<^verbatim>\<open>catch\<close> has something to be about.
\<close>

text \<open>
  The object literal \<^verbatim>\<open>{ name: x.name, email: x.email, industry: x.industry }\<close>,
  which the source builds for every remote call, from form data or from a stored lead.
\<close>

definition payload :: "'a LeadInput_scheme \<Rightarrow> LeadInput" where
  "payload x = \<lparr>name = name x, email = email x, industry = industry x\<rparr>"

definition saveLead_try :: "remote_outcome \<Rightarrow> unknown + OperationResult" where
  "saveLead_try outcome =
     (case outcome of
        Rejected v \<Rightarrow> Inl v
      | Resolved e \<Rightarrow>
          if js_truthy e
          then Inr \<lparr>success = False, error = Some (js_or (js_message e) (Str ''Failed to save lead.''))\<rparr>
          else Inr \<lparr>success = True, error = None\<rparr>)"

definition saveLead_settled :: "remote_outcome \<Rightarrow> unknown + OperationResult" where
  "saveLead_settled outcome =
     (case saveLead_try outcome of
        Inr r \<Rightarrow> Inr r
      | Inl err \<Rightarrow>
          Inr \<lparr>success = False,
               error = Some (getErrorMessage err ''Unexpected error while saving lead.'')\<rparr>)"

definition saveLead ::
  "supabase \<Rightarrow> LeadInput \<Rightarrow> (unknown + OperationResult) \<times> remote_call list" where
  "saveLead sb data =
     (let body = payload data
      in (saveLead_settled (from_leads_insert sb body), [InsertLead body]))"

definition sendConfirmationEmail_try :: "remote_outcome \<Rightarrow> unknown + OperationResult" where
  "sendConfirmationEmail_try outcome =
     (case outcome of
        Rejected v \<Rightarrow> Inl v
      | Resolved e \<Rightarrow>
          if js_truthy e
          then Inr \<lparr>success = False,
                    error = Some (js_or (js_message e) (Str ''Failed to send confirmation email.''))\<rparr>
          else Inr \<lparr>success = True, error = None\<rparr>)"

definition sendConfirmationEmail_settled :: "remote_outcome \<Rightarrow> unknown + OperationResult" where
  "sendConfirmationEmail_settled outcome =
     (case sendConfirmationEmail_try outcome of
        Inr r \<Rightarrow> Inr r
      | Inl err \<Rightarrow>
          Inr \<lparr>success = False,
               error = Some (getErrorMessage err ''Unexpected error while sending email.'')\<rparr>)"

definition sendConfirmationEmail ::
  "supabase \<Rightarrow> LeadInput \<Rightarrow> (unknown + OperationResult) \<times> remote_call list" where
  "sendConfirmationEmail sb data =
     (let body = payload data
      in (sendConfirmationEmail_settled (functions_invoke sb body),
          [InvokeSendConfirmation body]))"

section \<open>The handlers\<close>

text \<open>
  An \<^verbatim>\<open>async\<close> handler runs in segments separated by its \<^verbatim>\<open>await\<close>s. Each
  segment is one definition acting on the state current when it runs (the setters
  write the current state; \<^verbatim>\<open>setLeads\<close> uses the functional form); values the
  closure captured (\<^verbatim>\<open>formData\<close>, \<^verbatim>\<open>lastLead\<close>) are passed on explicitly.
\<close>

subsection \<open>\<^verbatim>\<open>resendEmail\<close>\<close>

text \<open>
  Lines 69 to 72: the guard on an empty \<^verbatim>\<open>leads\<close>, the two setters and the choice
  of the last lead. \<open>None\<close> is the early \<^verbatim>\<open>return\<close>.
\<close>

definition resendEmail_begin :: "state \<Rightarrow> (state \<times> LeadInput) option" where
  "resendEmail_begin s =
     (if length (leads s) = 0 then None
      else
        let s1 = s\<lparr>isResendingEmail := True\<rparr>;
            s2 = s1\<lparr>emailError := None\<rparr>;
            lastLead = leads s ! (length (leads s) - 1)
        in Some (s2, payload lastLead))"

text \<open>Lines 75 to 83: what follows the \<^verbatim>\<open>await\<close>, with \<^verbatim>\<open>catch\<close> and \<^verbatim>\<open>finally\<close>.\<close>

definition resendEmail_resume :: "state \<Rightarrow> unknown + OperationResult \<Rightarrow> state" where
  "resendEmail_resume s r =
     (let s1 =
        (case r of
           Inr result \<Rightarrow>
             if \<not> success result
             then s\<lparr>emailError :=
                      Some (js_or (error result)
                              (Str ''Still unable to send the confirmation email.''))\<rparr>
             else s
         | Inl err \<Rightarrow>
             s\<lparr>emailError :=
                 Some (getErrorMessage err ''Unexpected error while resending email.'')\<rparr>)
      in s1\<lparr>isResendingEmail := False\<rparr>)"

definition resendEmail :: "supabase \<Rightarrow> state \<Rightarrow> state \<times> remote_call list" where
  "resendEmail sb s =
     (case resendEmail_begin s of
        None \<Rightarrow> (s, [])
      | Some (s1, data) \<Rightarrow>
          let (r, calls) = sendConfirmationEmail sb data
          in (resendEmail_resume s1 r, calls))"

subsection \<open>\<^verbatim>\<open>handleSubmit\<close>\<close>

text \<open>
  \<^verbatim>\<open>validateLeadForm\<close> (from \<^verbatim>\<open>@/lib/validation\<close>) and the clock read by
  \<^verbatim>\<open>new Date().toISOString()\<close> are parameters.

  Lines 88 to 97: reset of both error channels, validation, and the early
  \<^verbatim>\<open>return\<close> (\<open>None\<close>) when there are errors; otherwise the captured
  \<^verbatim>\<open>formData\<close> goes on to \<^verbatim>\<open>saveLead\<close>.
\<close>

definition handleSubmit_begin ::
  "(LeadInput \<Rightarrow> ValidationError list) \<Rightarrow> state \<Rightarrow> state \<times> LeadInput option" where
  "handleSubmit_begin validateLeadForm s =
     (let s1 = s\<lparr>leadError := None\<rparr>;
          s2 = s1\<lparr>emailError := None\<rparr>;
          errors = validateLeadForm (formData s);
          s3 = s2\<lparr>validationErrors := errors\<rparr>
      in if length errors > 0 then (s3, None)
         else (s3\<lparr>isSubmitting := True\<rparr>, Some (formData s)))"

text \<open>The \<^verbatim>\<open>catch\<close> (lines 123 to 125) and the \<^verbatim>\<open>finally\<close> (line 127).\<close>

definition handleSubmit_catch :: "state \<Rightarrow> unknown \<Rightarrow> state" where
  "handleSubmit_catch s err =
     s\<lparr>leadError := Some (getErrorMessage err ''Unexpected error occurred.'')\<rparr>"

definition handleSubmit_finally :: "state \<Rightarrow> state" where
  "handleSubmit_finally s = s\<lparr>isSubmitting := False\<rparr>"

text \<open>
  Lines 101 to 105, once \<^verbatim>\<open>saveLead\<close> has settled. The flag says whether the
  handler goes on to the email step.
\<close>

definition handleSubmit_saved :: "state \<Rightarrow> unknown + OperationResult \<Rightarrow> state \<times> bool" where
  "handleSubmit_saved s r =
     (case r of
        Inl err \<Rightarrow> (handleSubmit_finally (handleSubmit_catch s err), False)
      | Inr saveResult \<Rightarrow>
          if \<not> success saveResult
          then (handleSubmit_finally
                  (s\<lparr>leadError :=
                       Some (js_or (error saveResult)
                               (Str ''Failed to save your information. Please try again.''))\<rparr>),
                False)
          else (s, True))"

text \<open>Lines 108 to 122, once \<^verbatim>\<open>sendConfirmationEmail\<close> has settled.\<close>

definition handleSubmit_emailed ::
  "string \<Rightarrow> LeadInput \<Rightarrow> state \<Rightarrow> unknown + OperationResult \<Rightarrow> state" where
  "handleSubmit_emailed now data s r =
     (case r of
        Inl err \<Rightarrow> handleSubmit_finally (handleSubmit_catch s err)
      | Inr emailResult \<Rightarrow>
          let s1 = (if \<not> success emailResult
                    then s\<lparr>emailError :=
                             Some (js_or (error emailResult)
                                     (Str ''We could not send a confirmation email right now.''))\<rparr>
                    else s);
              lead = \<lparr>name = name data, email = email data, industry = industry data,
                      submitted_at = now\<rparr>;
              s2 = s1\<lparr>leads := leads s1 @ [lead]\<rparr>;
              s3 = s2\<lparr>submitted := True\<rparr>;
              s4 = s3\<lparr>formData := \<lparr>name = [], email = [], industry = []\<rparr>\<rparr>
          in handleSubmit_finally s4)"

definition handleSubmit ::
  "(LeadInput \<Rightarrow> ValidationError list) \<Rightarrow> supabase \<Rightarrow> string \<Rightarrow> state
     \<Rightarrow> state \<times> remote_call list" where
  "handleSubmit validateLeadForm sb now s =
     (case handleSubmit_begin validateLeadForm s of
        (s1, None) \<Rightarrow> (s1, [])
      | (s1, Some data) \<Rightarrow>
          let (saveResult, calls1) = saveLead sb data
          in (case handleSubmit_saved s1 saveResult of
                (s2, False) \<Rightarrow> (s2, calls1)
              | (s2, True) \<Rightarrow>
                  let (emailResult, calls2) = sendConfirmationEmail sb data
                  in (handleSubmit_emailed now data s2 emailResult, calls1 @ calls2)))"

subsection \<open>\<^verbatim>\<open>handleInputChange\<close>\<close>

text \<open>
  Lines 131 to 136. The three call sites pass \<^verbatim>\<open>'name'\<close>, \<^verbatim>\<open>'email'\<close> and
  \<^verbatim>\<open>'industry'\<close>; another key would add a property that no code reads.
\<close>

definition handleInputChange :: "string \<Rightarrow> string \<Rightarrow> state \<Rightarrow> state" where
  "handleInputChange f v s =
     (let prev = formData s;
          s1 = s\<lparr>formData :=
                   (if f = ''name'' then prev\<lparr>name := v\<rparr>
                    else if f = ''email'' then prev\<lparr>email := v\<rparr>
                    else if f = ''industry'' then prev\<lparr>industry := v\<rparr>
                    else prev)\<rparr>
      in if list_ex (\<lambda>e. field e = f) (validationErrors s)
         then s1\<lparr>validationErrors := filter (\<lambda>e. field e \<noteq> f) (validationErrors s1)\<rparr>
         else s1)"

section \<open>The component as an event system\<close>

text \<open>
  Between two segments of a handler other events may run: the handlers are
  \<^verbatim>\<open>async\<close>, and the page stays live while a call is outstanding. A configuration
  holds the state cells, the handler activations suspended at an \<^verbatim>\<open>await\<close> (each
  with the value its closure captured), and the remote calls issued so far.
  A segment runs to completion, and the state it sets is rendered before the next
  event is taken: the updates made in a click or submit handler are flushed when the
  event ends, and the code after an \<^verbatim>\<open>await\<close> runs uninterrupted.
\<close>

datatype pending = AwaitSave LeadInput | AwaitEmail LeadInput | AwaitResend LeadInput

record config =
  ui :: state
  inflight :: "pending list"
  issued :: "remote_call list"

definition initial_config :: config where
  "initial_config = \<lparr>ui = initial_state, inflight = [], issued = []\<rparr>"

text \<open>
  The user's actions and the settling of the \<open>i\<close>-th outstanding call, with its
  outcome and the clock's reading at that moment.
\<close>

datatype event =
    Submit
  | Change string string
  | SubmitAnother
  | Retry
  | Settle nat remote_outcome string

text \<open>
  Which controls the render offers. With \<^verbatim>\<open>submitted\<close> the component returns the
  success view (line 138), otherwise the form. The form's inputs and its submit
  button carry \<^verbatim>\<open>disabled={isSubmitting}\<close> (lines 247, 266, 277, 302). The
  success view always has the "Submit Another Lead" button (line 185); the
  "Retry Email" button is inside \<^verbatim>\<open>{emailError && ...}\<close> (line 158) and carries
  \<^verbatim>\<open>disabled={isResendingEmail}\<close> (line 166).
\<close>

definition form_enabled :: "state \<Rightarrow> bool" where
  "form_enabled s = (\<not> submitted s \<and> \<not> isSubmitting s)"

definition retry_enabled :: "state \<Rightarrow> bool" where
  "retry_enabled s = (submitted s \<and> js_truthy_str (emailError s) \<and> \<not> isResendingEmail s)"

definition remove_nth :: "nat \<Rightarrow> 'a list \<Rightarrow> 'a list" where
  "remove_nth i xs = take i xs @ drop (Suc i) xs"

text \<open>
  One event. \<open>None\<close>: the event cannot happen in this configuration (the control is
  not rendered or is disabled, or no such call is outstanding).
\<close>

fun fire :: "(LeadInput \<Rightarrow> ValidationError list) \<Rightarrow> event \<Rightarrow> config \<Rightarrow> config option" where
  "fire validateLeadForm Submit c =
     (if form_enabled (ui c)
      then (case handleSubmit_begin validateLeadForm (ui c) of
              (s1, None) \<Rightarrow> Some (c\<lparr>ui := s1\<rparr>)
            | (s1, Some data) \<Rightarrow>
                Some (c\<lparr>ui := s1,
                        inflight := inflight c @ [AwaitSave data],
                        issued := issued c @ [InsertLead (payload data)]\<rparr>))
      else None)"
| "fire validateLeadForm (Change f v) c =
     (if form_enabled (ui c) then Some (c\<lparr>ui := handleInputChange f v (ui c)\<rparr>) else None)"
| "fire validateLeadForm SubmitAnother c =
     (if submitted (ui c) then Some (c\<lparr>ui := (ui c)\<lparr>submitted := False\<rparr>\<rparr>) else None)"
| "fire validateLeadForm Retry c =
     (if retry_enabled (ui c)
      then (case resendEmail_begin (ui c) of
              None \<Rightarrow> Some c
            | Some (s1, data) \<Rightarrow>
                Some (c\<lparr>ui := s1,
                        inflight := inflight c @ [AwaitResend data],
                        issued := issued c @ [InvokeSendConfirmation (payload data)]\<rparr>))
      else None)"
| "fire validateLeadForm (Settle i outcome now) c =
     (if i < length (inflight c)
      then (case inflight c ! i of
              AwaitSave data \<Rightarrow>
                (case handleSubmit_saved (ui c) (saveLead_settled outcome) of
                   (s1, False) \<Rightarrow>
                     Some (c\<lparr>ui := s1, inflight := remove_nth i (inflight c)\<rparr>)
                 | (s1, True) \<Rightarrow>
                     Some (c\<lparr>ui := s1,
                             inflight := (inflight c)[i := AwaitEmail data],
                             issued := issued c @ [InvokeSendConfirmation (payload data)]\<rparr>))
            | AwaitEmail data \<Rightarrow>
                Some (c\<lparr>ui := handleSubmit_emailed now data (ui c)
                                 (sendConfirmationEmail_settled outcome),
                        inflight := remove_nth i (inflight c)\<rparr>)
            | AwaitResend data \<Rightarrow>
                Some (c\<lparr>ui := resendEmail_resume (ui c) (sendConfirmationEmail_settled outcome),
                        inflight := remove_nth i (inflight c)\<rparr>))
      else None)"

fun run :: "(LeadInput \<Rightarrow> ValidationError list) \<Rightarrow> event list \<Rightarrow> config \<Rightarrow> config option" where
  "run validateLeadForm [] c = Some c"
| "run validateLeadForm (ev # evs) c =
     (case fire validateLeadForm ev c of
        None \<Rightarrow> None
      | Some c1 \<Rightarrow> run validateLeadForm evs c1)"

text \<open>The outstanding calls that \<^verbatim>\<open>resendEmail\<close> started.\<close>

fun is_resend :: "pending \<Rightarrow> bool" where
  "is_resend (AwaitResend data) = True"
| "is_resend p = False"

definition resends_in_flight :: "config \<Rightarrow> nat" where
  "resends_in_flight c = length (filter is_resend (inflight c))"

section \<open>Auxiliary notions and concrete inputs\<close>

text \<open>What a settled wrapper returns: never a throw; an error exactly on failure, and truthy.\<close>

definition well_formed_result :: "unknown + OperationResult \<Rightarrow> bool" where
  "well_formed_result x =
     (case x of Inl v \<Rightarrow> False
      | Inr r \<Rightarrow> (if success r then error r = None
                  else (case error r of None \<Rightarrow> False | Some m \<Rightarrow> js_text_truthy m)))"

definition ana :: LeadInput where
  "ana = \<lparr>name = ''Ana'', email = ''ana@x.com'', industry = ''finance''\<rparr>"

definition ana_form :: state where
  "ana_form = initial_state\<lparr>formData := ana\<rparr>"

definition accept_all :: "LeadInput \<Rightarrow> ValidationError list" where
  "accept_all d = []"

definition require_name :: "LeadInput \<Rightarrow> ValidationError list" where
  "require_name d =
     (if name d = [] then [\<lparr>field = ''name'', message = ''Name is required''\<rparr>] else [])"

definition remote :: "remote_outcome \<Rightarrow> remote_outcome \<Rightarrow> supabase" where
  "remote a b = \<lparr>from_leads_insert = (\<lambda>d. a), functions_invoke = (\<lambda>d. b)\<rparr>"

definition failure :: "string \<Rightarrow> unknown" where
  "failure m = Object (Present (Some (Str m)))"

definition ana_pending :: state where
  "ana_pending = initial_state
     \<lparr>submitted := True, emailError := Some (Str ''rate limited''),
      leads := [\<lparr>name = ''Bo'', email = ''bo@x.com'', industry = ''retail'', submitted_at = ''T0''\<rparr>,
                \<lparr>name = ''Ana'', email = ''ana@x.com'', industry = ''finance'',
                 submitted_at = ''T1''\<rparr>]\<rparr>"

text \<open>
  The flag \<^verbatim>\<open>isResendingEmail\<close> is set exactly while one call started by
  \<^verbatim>\<open>resendEmail\<close> is outstanding.
\<close>

definition resend_flag_agrees :: "config \<Rightarrow> bool" where
  "resend_flag_agrees c =
     (resends_in_flight c = (if isResendingEmail (ui c) then 1 else 0))"

text \<open>
  A session: the user fills the form and submits, the insert succeeds, the email
  function fails, and the user presses "Retry Email"; that call is still outstanding.
\<close>

definition retry_run :: "event list" where
  "retry_run =
     [Change ''name'' ''Ana'', Change ''email'' ''ana@x.com'', Change ''industry'' ''finance'',
      Submit,
      Settle 0 (Resolved Null) ''T0'',
      Settle 0 (Rejected (failure ''rate limited'')) ''T1'',
      Retry]"

definition retry_outstanding :: config where
  "retry_outstanding =
     \<lparr>ui = \<lparr>formData = \<lparr>name = [], email = [], industry = []\<rparr>,
            validationErrors = [],
            submitted = True,
            isSubmitting = False,
            isResendingEmail = True,
            leadError = None,
            emailError = None,
            leads = [\<lparr>name = ''Ana'', email = ''ana@x.com'', industry = ''finance'',
                      submitted_at = ''T1''\<rparr>]\<rparr>,
      inflight = [AwaitResend ana],
      issued = [InsertLead ana, InvokeSendConfirmation ana, InvokeSendConfirmation ana]\<rparr>"

section \<open>Basic facts\<close>

lemmas example_defs = ana_def ana_form_def accept_all_def require_name_def remote_def failure_def
  initial_state_def

lemmas handler_defs = handleSubmit_def handleSubmit_begin_def handleSubmit_saved_def
  handleSubmit_emailed_def handleSubmit_catch_def handleSubmit_finally_def
  resendEmail_def resendEmail_begin_def resendEmail_resume_def
  saveLead_def saveLead_settled_def saveLead_try_def
  sendConfirmationEmail_def sendConfirmationEmail_settled_def sendConfirmationEmail_try_def
  getErrorMessage_def payload_def Let_def

lemma js_or_truthy: "js_text_truthy b \<Longrightarrow> js_text_truthy (js_or a b)"
  by (cases a) auto

lemma getErrorMessage_truthy: "fb \<noteq> [] \<Longrightarrow> js_text_truthy (getErrorMessage v fb)"
  by (simp add: getErrorMessage_def Let_def js_or_truthy)

lemma payload_payload: "payload (payload x) = payload x"
  by (simp add: payload_def)

lemma payload_LeadInput: "payload (d :: LeadInput) = d"
  by (simp add: payload_def)

lemma saveLead_settled_Rejected:
  "saveLead_settled (Rejected v) =
     Inr \<lparr>success = False, error = Some (getErrorMessage v ''Unexpected error while saving lead.'')\<rparr>"
  by (simp add: saveLead_settled_def saveLead_try_def)

lemma saveLead_settled_Resolved:
  "saveLead_settled (Resolved e) =
     (if js_truthy e
      then Inr \<lparr>success = False, error = Some (js_or (js_message e) (Str ''Failed to save lead.''))\<rparr>
      else Inr \<lparr>success = True, error = None\<rparr>)"
  by (simp add: saveLead_settled_def saveLead_try_def)

lemma sendConfirmationEmail_settled_Rejected:
  "sendConfirmationEmail_settled (Rejected v) =
     Inr \<lparr>success = False,
          error = Some (getErrorMessage v ''Unexpected error while sending email.'')\<rparr>"
  by (simp add: sendConfirmationEmail_settled_def sendConfirmationEmail_try_def)

lemma sendConfirmationEmail_settled_Resolved:
  "sendConfirmationEmail_settled (Resolved e) =
     (if js_truthy e
      then Inr \<lparr>success = False,
                error = Some (js_or (js_message e) (Str ''Failed to send confirmation email.''))\<rparr>
      else Inr \<lparr>success = True, error = None\<rparr>)"
  by (simp add: sendConfirmationEmail_settled_def sendConfirmationEmail_try_def)

lemma saveLead_settled_wf: "well_formed_result (saveLead_settled outcome)"
  by (cases outcome)
     (simp_all add: saveLead_settled_Rejected saveLead_settled_Resolved well_formed_result_def
        getErrorMessage_truthy js_or_truthy)

lemma sendConfirmationEmail_settled_wf: "well_formed_result (sendConfirmationEmail_settled outcome)"
  by (cases outcome)
     (simp_all add: sendConfirmationEmail_settled_Rejected sendConfirmationEmail_settled_Resolved
        well_formed_result_def getErrorMessage_truthy js_or_truthy)

lemma wf_Inr_failure:
  "well_formed_result (Inr r) \<Longrightarrow> \<not> success r \<Longrightarrow> \<exists>m. error r = Some m \<and> js_text_truthy m"
  by (auto simp: well_formed_result_def split: option.splits)

lemma wf_not_Inl: "well_formed_result x \<Longrightarrow> \<exists>r. x = Inr r"
  by (cases x) (auto simp: well_formed_result_def)

lemma fst_saveLead: "fst (saveLead sb data) = saveLead_settled (from_leads_insert sb (payload data))"
  by (simp add: saveLead_def Let_def)

lemma fst_sendConfirmationEmail:
  "fst (sendConfirmationEmail sb data) = sendConfirmationEmail_settled (functions_invoke sb (payload data))"
  by (simp add: sendConfirmationEmail_def Let_def)

lemma handleSubmit_begin_valid:
  "validateLeadForm (formData s) = [] \<Longrightarrow>
   handleSubmit_begin validateLeadForm s =
     (s\<lparr>leadError := None, emailError := None, validationErrors := [], isSubmitting := True\<rparr>,
      Some (formData s))"
  by (simp add: handleSubmit_begin_def Let_def)

lemma handleSubmit_begin_invalid:
  "validateLeadForm (formData s) \<noteq> [] \<Longrightarrow>
   handleSubmit_begin validateLeadForm s =
     (s\<lparr>leadError := None, emailError := None,
        validationErrors := validateLeadForm (formData s)\<rparr>, None)"
  by (simp add: handleSubmit_begin_def Let_def)

text \<open>The handler, once validation has passed, in terms of the two settled wrappers.\<close>

lemma handleSubmit_valid:
  assumes "validateLeadForm (formData s) = []"
  shows "handleSubmit validateLeadForm sb now s =
     (let s1 = s\<lparr>leadError := None, emailError := None, validationErrors := [],
                  isSubmitting := True\<rparr>;
          d = formData s
      in case handleSubmit_saved s1 (saveLead_settled (from_leads_insert sb d)) of
           (s2, False) \<Rightarrow> (s2, [InsertLead d])
         | (s2, True) \<Rightarrow>
             (handleSubmit_emailed now d s2
                (sendConfirmationEmail_settled (functions_invoke sb d)),
              [InsertLead d, InvokeSendConfirmation d]))"
  using assms
  by (simp add: handleSubmit_def handleSubmit_begin_valid saveLead_def sendConfirmationEmail_def
        Let_def payload_LeadInput split: prod.splits bool.splits)

lemma resendEmail_begin_empty: "leads s = [] \<Longrightarrow> resendEmail_begin s = None"
  by (simp add: resendEmail_begin_def)

lemma resendEmail_begin_nonempty:
  "leads s \<noteq> [] \<Longrightarrow>
   resendEmail_begin s =
     Some (s\<lparr>isResendingEmail := True, emailError := None\<rparr>, payload (last (leads s)))"
  by (simp add: resendEmail_begin_def Let_def last_conv_nth)

lemma resendEmail_nonempty:
  "leads s \<noteq> [] \<Longrightarrow>
   resendEmail sb s =
     (resendEmail_resume (s\<lparr>isResendingEmail := True, emailError := None\<rparr>)
        (sendConfirmationEmail_settled (functions_invoke sb (payload (last (leads s))))),
      [InvokeSendConfirmation (payload (last (leads s)))])"
  by (simp add: resendEmail_def resendEmail_begin_nonempty sendConfirmationEmail_def Let_def
        payload_payload)

lemma find_field_Some:
  "e \<in> set errs \<Longrightarrow> \<exists>e'\<in>set errs. field e' = field e \<and> find (\<lambda>x. field x = field e) errs = Some e'"
  by (induction errs) auto






subsection \<open>The event system\<close>

lemma filter_remove_nth:
  "i < length xs \<Longrightarrow>
   length (filter P (remove_nth i xs)) = length (filter P xs) - (if P (xs ! i) then 1 else 0)"
proof -
  assume i: "i < length xs"
  have "length (filter P xs) = length (filter P (take i xs @ xs ! i # drop (Suc i) xs))"
    using id_take_nth_drop [OF i] by simp
  then show ?thesis
    by (simp add: remove_nth_def)
qed

lemma filter_list_update:
  "i < length xs \<Longrightarrow> \<not> P (xs ! i) \<Longrightarrow> \<not> P y \<Longrightarrow>
   length (filter P (xs[i := y])) = length (filter P xs)"
proof -
  assume i: "i < length xs" and n: "\<not> P (xs ! i)" "\<not> P y"
  have "length (filter P xs) = length (filter P (take i xs @ xs ! i # drop (Suc i) xs))"
    using id_take_nth_drop [OF i] by simp
  then show ?thesis
    using n by (simp add: upd_conv_take_nth_drop [OF i])
qed

lemma filter_nth_pos: "i < length xs \<Longrightarrow> P (xs ! i) \<Longrightarrow> 0 < length (filter P xs)"
  by (metis filter_empty_conv length_greater_0_conv nth_mem)

lemma handleSubmit_begin_flag:
  "handleSubmit_begin v s = (s1, d) \<Longrightarrow> isResendingEmail s1 = isResendingEmail s"
  by (auto simp: handleSubmit_begin_def Let_def split: if_splits)

lemma handleSubmit_saved_flag:
  "handleSubmit_saved s r = (s1, b) \<Longrightarrow> isResendingEmail s1 = isResendingEmail s"
  by (auto simp: handleSubmit_saved_def handleSubmit_finally_def handleSubmit_catch_def
        split: sum.splits if_splits)

lemma handleSubmit_emailed_flag:
  "isResendingEmail (handleSubmit_emailed now d s r) = isResendingEmail s"
  by (simp add: handleSubmit_emailed_def handleSubmit_finally_def handleSubmit_catch_def Let_def
        split: sum.splits)

lemma handleInputChange_flag: "isResendingEmail (handleInputChange f v s) = isResendingEmail s"
  by (simp add: handleInputChange_def Let_def)

lemma resendEmail_resume_flag: "isResendingEmail (resendEmail_resume s r) = False"
  by (simp add: resendEmail_resume_def Let_def)

lemma resendEmail_begin_flag:
  "resendEmail_begin s = Some (s1, d) \<Longrightarrow> isResendingEmail s1"
  by (auto simp: resendEmail_begin_def Let_def split: if_splits)

lemma fire_Retry_blocked: "isResendingEmail (ui c) \<Longrightarrow> fire v Retry c = None"
  by (simp add: retry_enabled_def)

lemma fire_resends:
  assumes "fire v ev c = Some c'"
  shows "(ev \<noteq> Retry \<longrightarrow> resends_in_flight c' \<le> resends_in_flight c)
       \<and> (resend_flag_agrees c \<longrightarrow> resend_flag_agrees c')"
proof (cases ev)
  case Submit
  then show ?thesis
    using assms
    by (auto simp: resends_in_flight_def resend_flag_agrees_def
          split: if_splits prod.splits option.splits dest: handleSubmit_begin_flag)
next
  case (Change f x)
  then show ?thesis
    using assms
    by (auto simp: resends_in_flight_def resend_flag_agrees_def handleInputChange_flag
          split: if_splits)
next
  case SubmitAnother
  then show ?thesis
    using assms
    by (auto simp: resends_in_flight_def resend_flag_agrees_def split: if_splits)
next
  case Retry
  then show ?thesis
    using assms
    by (auto simp: resends_in_flight_def resend_flag_agrees_def retry_enabled_def
          split: if_splits option.splits dest: resendEmail_begin_flag)
next
  case (Settle i outcome now)
  show ?thesis
  proof (cases "i < length (inflight c)")
    case False
    then show ?thesis using assms Settle by simp
  next
    case True
    show ?thesis
    proof (cases "inflight c ! i")
      case (AwaitSave d)
      obtain s1 b where hs: "handleSubmit_saved (ui c) (saveLead_settled outcome) = (s1, b)"
        by (cases "handleSubmit_saved (ui c) (saveLead_settled outcome)")
      have flag: "isResendingEmail (ui c') = isResendingEmail (ui c)"
        using assms Settle True AwaitSave hs handleSubmit_saved_flag [OF hs]
        by (cases b) auto
      have "length (filter is_resend (inflight c')) = length (filter is_resend (inflight c))"
        using assms Settle True AwaitSave hs
        by (cases b) (auto simp: filter_remove_nth filter_list_update)
      then have "resends_in_flight c' = resends_in_flight c"
        by (simp only: resends_in_flight_def)
      then show ?thesis
        using flag by (simp add: resend_flag_agrees_def)
    next
      case (AwaitEmail d)
      have flag: "isResendingEmail (ui c') = isResendingEmail (ui c)"
        using assms Settle True AwaitEmail by (auto simp: handleSubmit_emailed_flag)
      have "length (filter is_resend (inflight c')) = length (filter is_resend (inflight c))"
        using assms Settle True AwaitEmail by (auto simp: filter_remove_nth)
      then have "resends_in_flight c' = resends_in_flight c"
        by (simp only: resends_in_flight_def)
      then show ?thesis
        using flag by (simp add: resend_flag_agrees_def)
    next
      case (AwaitResend d)
      have pos: "0 < resends_in_flight c"
        using filter_nth_pos [OF True, of is_resend] AwaitResend
        by (simp add: resends_in_flight_def)
      have flag: "\<not> isResendingEmail (ui c')"
        using assms Settle True AwaitResend by (auto simp: resendEmail_resume_flag)
      have "length (filter is_resend (inflight c')) = length (filter is_resend (inflight c)) - 1"
        using assms Settle True AwaitResend by (auto simp: filter_remove_nth)
      then have cnt: "resends_in_flight c' = resends_in_flight c - 1"
        by (simp only: resends_in_flight_def)
      show ?thesis
        using flag cnt pos by (auto simp: resend_flag_agrees_def split: if_splits)
    qed
  qed
qed

lemma run_resend_flag_agrees:
  "run v evs c = Some c' \<Longrightarrow> resend_flag_agrees c \<Longrightarrow> resend_flag_agrees c'"
proof (induction evs arbitrary: c)
  case Nil
  then show ?case by simp
next
  case (Cons ev evs)
  then obtain c1 where c1: "fire v ev c = Some c1" "run v evs c1 = Some c'"
    by (auto split: option.splits)
  have "resend_flag_agrees c1"
    using fire_resends [OF c1(1)] Cons.prems(2) by blast
  then show ?case
    using Cons.IH [OF c1(2)] by blast
qed

lemma initial_resend_flag_agrees: "resend_flag_agrees initial_config"
  by (simp add: resend_flag_agrees_def resends_in_flight_def initial_config_def initial_state_def)

lemma retry_run_result: "run accept_all retry_run initial_config = Some retry_outstanding"
  by (simp add: retry_run_def retry_outstanding_def initial_config_def example_defs handler_defs
        handleInputChange_def form_enabled_def retry_enabled_def remove_nth_def)

text \<open>
  Run with no other event in between, the segments of a handler give the handler:
  the event system and the sequential reading of \<^verbatim>\<open>resendEmail\<close> and
  \<^verbatim>\<open>handleSubmit\<close> agree.
\<close>

lemma resendEmail_as_events:
  assumes "retry_enabled s" "leads s \<noteq> []"
  shows "run v [Retry, Settle 0 (functions_invoke sb (payload (last (leads s)))) now]
           \<lparr>ui = s, inflight = [], issued = []\<rparr> =
         Some \<lparr>ui = fst (resendEmail sb s), inflight = [], issued = snd (resendEmail sb s)\<rparr>"
  using assms
  by (simp add: resendEmail_nonempty resendEmail_begin_nonempty remove_nth_def payload_payload)

lemma handleSubmit_as_events_stop:
  assumes "form_enabled s" "validateLeadForm (formData s) = []"
    and "handleSubmit_saved
           (s\<lparr>leadError := None, emailError := None, validationErrors := [],
              isSubmitting := True\<rparr>)
           (saveLead_settled (from_leads_insert sb (formData s))) = (s2, False)"
  shows "run validateLeadForm [Submit, Settle 0 (from_leads_insert sb (formData s)) now0]
           \<lparr>ui = s, inflight = [], issued = []\<rparr> =
         Some \<lparr>ui = fst (handleSubmit validateLeadForm sb now s), inflight = [],
               issued = snd (handleSubmit validateLeadForm sb now s)\<rparr>"
  using assms
  by (simp add: handleSubmit_valid [of validateLeadForm s] handleSubmit_begin_valid
        remove_nth_def payload_LeadInput Let_def)

lemma handleSubmit_as_events_go:
  assumes "form_enabled s" "validateLeadForm (formData s) = []"
    and "handleSubmit_saved
           (s\<lparr>leadError := None, emailError := None, validationErrors := [],
              isSubmitting := True\<rparr>)
           (saveLead_settled (from_leads_insert sb (formData s))) = (s2, True)"
  shows "run validateLeadForm
           [Submit, Settle 0 (from_leads_insert sb (formData s)) now0,
            Settle 0 (functions_invoke sb (formData s)) now]
           \<lparr>ui = s, inflight = [], issued = []\<rparr> =
         Some \<lparr>ui = fst (handleSubmit validateLeadForm sb now s), inflight = [],
               issued = snd (handleSubmit validateLeadForm sb now s)\<rparr>"
  using assms
  by (simp add: handleSubmit_valid [of validateLeadForm s] handleSubmit_begin_valid
        remove_nth_def payload_LeadInput Let_def)

section \<open>Properties of the submit flow\<close>

text \<open>
  Claim C1. For a valid input whose persistence call fails, \<^verbatim>\<open>handleSubmit\<close> leaves
  \<^verbatim>\<open>leads\<close> unchanged, sets \<^verbatim>\<open>leadError\<close> (to the truthy error of the
  failed result), issues the insert and no call of the email function, and leaves
  \<^verbatim>\<open>submitted\<close> as it was.
\<close>

theorem handleSubmit_persistence_failure:
  assumes valid: "validateLeadForm (formData s) = []"
    and res: "fst (saveLead sb (formData s)) = Inr r"
    and fail: "\<not> success r"
  shows "leads (fst (handleSubmit validateLeadForm sb now s)) = leads s
       \<and> leadError (fst (handleSubmit validateLeadForm sb now s)) = error r
       \<and> (\<exists>m. error r = Some m \<and> js_text_truthy m)
       \<and> snd (handleSubmit validateLeadForm sb now s) = [InsertLead (formData s)]
       \<and> (\<forall>d. InvokeSendConfirmation d \<notin> set (snd (handleSubmit validateLeadForm sb now s)))
       \<and> submitted (fst (handleSubmit validateLeadForm sb now s)) = submitted s
       \<and> emailError (fst (handleSubmit validateLeadForm sb now s)) = None
       \<and> isSubmitting (fst (handleSubmit validateLeadForm sb now s)) = False"
proof -
  have settled: "saveLead_settled (from_leads_insert sb (formData s)) = Inr r"
    using res by (simp add: fst_saveLead payload_LeadInput)
  have "well_formed_result (Inr r)"
    using saveLead_settled_wf [of "from_leads_insert sb (formData s)"] settled by simp
  then obtain m where m: "error r = Some m" "js_text_truthy m"
    using fail wf_Inr_failure by blast
  have "handleSubmit validateLeadForm sb now s =
      (s\<lparr>leadError := Some m, emailError := None, validationErrors := [], isSubmitting := False\<rparr>,
       [InsertLead (formData s)])"
    using fail m
    by (simp add: handleSubmit_valid [of validateLeadForm s, OF valid] settled handleSubmit_saved_def
          handleSubmit_finally_def Let_def)
  then show ?thesis using m by simp
qed

theorem handleSubmit_persistence_failure_witness:
  "accept_all (formData ana_form) = []
   \<and> fst (saveLead (remote (Rejected (failure ''db down'')) (Resolved Null)) (formData ana_form))
       = Inr \<lparr>success = False, error = Some (Str ''db down'')\<rparr>
   \<and> leads (fst (handleSubmit accept_all
        (remote (Rejected (failure ''db down'')) (Resolved Null)) ''T'' ana_form)) = []
   \<and> leadError (fst (handleSubmit accept_all
        (remote (Rejected (failure ''db down'')) (Resolved Null)) ''T'' ana_form)) = Some (Str ''db down'')
   \<and> snd (handleSubmit accept_all
        (remote (Rejected (failure ''db down'')) (Resolved Null)) ''T'' ana_form) = [InsertLead ana]
   \<and> submitted (fst (handleSubmit accept_all
        (remote (Rejected (failure ''db down'')) (Resolved Null)) ''T'' ana_form)) = False"
proof -
  have v: "accept_all (formData ana_form) = []"
    by (simp add: accept_all_def)
  have r: "fst (saveLead (remote (Rejected (failure ''db down'')) (Resolved Null)) (formData ana_form))
       = Inr \<lparr>success = False, error = Some (Str ''db down'')\<rparr>"
    by (simp add: example_defs handler_defs)
  have f: "\<not> success \<lparr>success = False, error = Some (Str ''db down'')\<rparr>"
    by simp
  show ?thesis
    using handleSubmit_persistence_failure [of accept_all ana_form _ _ "''T''", OF v r f] v r
    by (simp add: example_defs)
qed

text \<open>
  Claim C2. For a valid input, when both the persistence call and the notification
  call succeed, \<^verbatim>\<open>handleSubmit\<close> appends exactly one lead (the form's fields and the
  clock's reading) to \<^verbatim>\<open>leads\<close>, leaves \<^verbatim>\<open>leadError\<close> and \<^verbatim>\<open>emailError\<close>
  null, sets \<^verbatim>\<open>submitted\<close> and empties the form fields.
\<close>

theorem handleSubmit_full_success:
  assumes valid: "validateLeadForm (formData s) = []"
    and save: "fst (saveLead sb (formData s)) = Inr r1" "success r1"
    and mail: "fst (sendConfirmationEmail sb (formData s)) = Inr r2" "success r2"
  shows "leads (fst (handleSubmit validateLeadForm sb now s)) =
           leads s @ [\<lparr>name = name (formData s), email = email (formData s),
                        industry = industry (formData s), submitted_at = now\<rparr>]
       \<and> length (leads (fst (handleSubmit validateLeadForm sb now s))) = Suc (length (leads s))
       \<and> leadError (fst (handleSubmit validateLeadForm sb now s)) = None
       \<and> emailError (fst (handleSubmit validateLeadForm sb now s)) = None
       \<and> submitted (fst (handleSubmit validateLeadForm sb now s)) = True
       \<and> formData (fst (handleSubmit validateLeadForm sb now s)) =
           \<lparr>name = [], email = [], industry = []\<rparr>
       \<and> isSubmitting (fst (handleSubmit validateLeadForm sb now s)) = False
       \<and> snd (handleSubmit validateLeadForm sb now s) =
           [InsertLead (formData s), InvokeSendConfirmation (formData s)]"
proof -
  have s1: "saveLead_settled (from_leads_insert sb (formData s)) = Inr r1"
    using save(1) by (simp add: fst_saveLead payload_LeadInput)
  have s2: "sendConfirmationEmail_settled (functions_invoke sb (formData s)) = Inr r2"
    using mail(1) by (simp add: fst_sendConfirmationEmail payload_LeadInput)
  have "handleSubmit validateLeadForm sb now s =
      (s\<lparr>leadError := None, emailError := None, validationErrors := [],
         leads := leads s @ [\<lparr>name = name (formData s), email = email (formData s),
                        industry = industry (formData s), submitted_at = now\<rparr>],
         submitted := True, formData := \<lparr>name = [], email = [], industry = []\<rparr>,
         isSubmitting := False\<rparr>,
       [InsertLead (formData s), InvokeSendConfirmation (formData s)])"
    using save(2) mail(2)
    by (simp add: handleSubmit_valid [of validateLeadForm s, OF valid] s1 s2
          handleSubmit_saved_def handleSubmit_emailed_def handleSubmit_finally_def Let_def)
  then show ?thesis by simp
qed

theorem handleSubmit_full_success_witness:
  "accept_all (formData ana_form) = []
   \<and> fst (saveLead (remote (Resolved Null) (Resolved Null)) (formData ana_form))
       = Inr \<lparr>success = True, error = None\<rparr>
   \<and> fst (sendConfirmationEmail (remote (Resolved Null) (Resolved Null)) (formData ana_form))
       = Inr \<lparr>success = True, error = None\<rparr>
   \<and> leads (fst (handleSubmit accept_all (remote (Resolved Null) (Resolved Null)) ''T'' ana_form))
       = [\<lparr>name = ''Ana'', email = ''ana@x.com'', industry = ''finance'', submitted_at = ''T''\<rparr>]
   \<and> leadError (fst (handleSubmit accept_all (remote (Resolved Null) (Resolved Null)) ''T'' ana_form))
       = None
   \<and> emailError (fst (handleSubmit accept_all (remote (Resolved Null) (Resolved Null)) ''T'' ana_form))
       = None
   \<and> submitted (fst (handleSubmit accept_all (remote (Resolved Null) (Resolved Null)) ''T'' ana_form))
   \<and> formData (fst (handleSubmit accept_all (remote (Resolved Null) (Resolved Null)) ''T'' ana_form))
       = \<lparr>name = [], email = [], industry = []\<rparr>"
proof -
  have v: "accept_all (formData ana_form) = []"
    by (simp add: accept_all_def)
  have r1: "fst (saveLead (remote (Resolved Null) (Resolved Null)) (formData ana_form))
       = Inr \<lparr>success = True, error = None\<rparr>"
    by (simp add: example_defs handler_defs)
  have r2: "fst (sendConfirmationEmail (remote (Resolved Null) (Resolved Null)) (formData ana_form))
       = Inr \<lparr>success = True, error = None\<rparr>"
    by (simp add: example_defs handler_defs)
  have t: "success \<lparr>success = True, error = None\<rparr>"
    by simp
  show ?thesis
    using handleSubmit_full_success [of accept_all ana_form _ _ _ "''T''", OF v r1 t r2 t] v r1 r2
    by (simp add: example_defs)
qed

text \<open>
  Claim C3. For a valid input, when the persistence call succeeds and the notification
  call fails with message \<open>m\<close>, \<^verbatim>\<open>handleSubmit\<close> appends exactly one lead, leaves
  \<^verbatim>\<open>leadError\<close> null and sets \<^verbatim>\<open>emailError\<close> to \<open>m\<close>. The instance below is the
  input Ana / ana@x.com / finance with the failure "rate limited".
\<close>

theorem handleSubmit_email_failure:
  assumes valid: "validateLeadForm (formData s) = []"
    and save: "fst (saveLead sb (formData s)) = Inr r1" "success r1"
    and mail: "fst (sendConfirmationEmail sb (formData s)) = Inr \<lparr>success = False, error = Some m\<rparr>"
  shows "leads (fst (handleSubmit validateLeadForm sb now s)) =
           leads s @ [\<lparr>name = name (formData s), email = email (formData s),
                        industry = industry (formData s), submitted_at = now\<rparr>]
       \<and> length (leads (fst (handleSubmit validateLeadForm sb now s))) = Suc (length (leads s))
       \<and> leadError (fst (handleSubmit validateLeadForm sb now s)) = None
       \<and> emailError (fst (handleSubmit validateLeadForm sb now s)) = Some m"
proof -
  have s1: "saveLead_settled (from_leads_insert sb (formData s)) = Inr r1"
    using save(1) by (simp add: fst_saveLead payload_LeadInput)
  have s2: "sendConfirmationEmail_settled (functions_invoke sb (formData s)) =
      Inr \<lparr>success = False, error = Some m\<rparr>"
    using mail by (simp add: fst_sendConfirmationEmail payload_LeadInput)
  have "well_formed_result (Inr \<lparr>success = False, error = Some m\<rparr>)"
    using sendConfirmationEmail_settled_wf [of "functions_invoke sb (formData s)"] s2 by simp
  then have m: "js_text_truthy m"
    by (simp add: well_formed_result_def)
  have "handleSubmit validateLeadForm sb now s =
      (s\<lparr>leadError := None, emailError := Some m, validationErrors := [],
         leads := leads s @ [\<lparr>name = name (formData s), email = email (formData s),
                        industry = industry (formData s), submitted_at = now\<rparr>],
         submitted := True, formData := \<lparr>name = [], email = [], industry = []\<rparr>,
         isSubmitting := False\<rparr>,
       [InsertLead (formData s), InvokeSendConfirmation (formData s)])"
    using save(2) m
    by (simp add: handleSubmit_valid [of validateLeadForm s, OF valid] s1 s2
          handleSubmit_saved_def handleSubmit_emailed_def handleSubmit_finally_def Let_def)
  then show ?thesis by simp
qed

theorem handleSubmit_email_failure_witness:
  "accept_all (formData ana_form) = []
   \<and> fst (saveLead (remote (Resolved Null) (Rejected (failure ''rate limited'')))
            (formData ana_form)) = Inr \<lparr>success = True, error = None\<rparr>
   \<and> fst (sendConfirmationEmail (remote (Resolved Null) (Rejected (failure ''rate limited'')))
            (formData ana_form)) = Inr \<lparr>success = False, error = Some (Str ''rate limited'')\<rparr>
   \<and> leads (fst (handleSubmit accept_all
        (remote (Resolved Null) (Rejected (failure ''rate limited''))) ''T'' ana_form))
       = [\<lparr>name = ''Ana'', email = ''ana@x.com'', industry = ''finance'', submitted_at = ''T''\<rparr>]
   \<and> leadError (fst (handleSubmit accept_all
        (remote (Resolved Null) (Rejected (failure ''rate limited''))) ''T'' ana_form)) = None
   \<and> emailError (fst (handleSubmit accept_all
        (remote (Resolved Null) (Rejected (failure ''rate limited''))) ''T'' ana_form))
       = Some (Str ''rate limited'')"
proof -
  have v: "accept_all (formData ana_form) = []"
    by (simp add: accept_all_def)
  have r1: "fst (saveLead (remote (Resolved Null) (Rejected (failure ''rate limited'')))
            (formData ana_form)) = Inr \<lparr>success = True, error = None\<rparr>"
    by (simp add: example_defs handler_defs)
  have r2: "fst (sendConfirmationEmail (remote (Resolved Null) (Rejected (failure ''rate limited'')))
            (formData ana_form)) = Inr \<lparr>success = False, error = Some (Str ''rate limited'')\<rparr>"
    by (simp add: example_defs handler_defs)
  have t: "success \<lparr>success = True, error = None\<rparr>"
    by simp
  show ?thesis
    using handleSubmit_email_failure [of accept_all ana_form _ _ _ "''T''", OF v r1 t r2] v r1 r2
    by (simp add: example_defs)
qed

text \<open>
  Claim C4. With a non-empty \<^verbatim>\<open>leads\<close>, \<^verbatim>\<open>resendEmail\<close> issues exactly one call
  of the email function, with the fields of the last element of \<^verbatim>\<open>leads\<close>; the
  wrapper always returns a result; when it reports success \<^verbatim>\<open>emailError\<close> ends
  null, when it reports failure \<^verbatim>\<open>emailError\<close> ends as the failure's message; in
  both cases \<^verbatim>\<open>leads\<close> is unchanged.
\<close>

theorem resendEmail_last_lead:
  assumes "leads s \<noteq> []"
  shows "snd (resendEmail sb s) = [InvokeSendConfirmation (payload (last (leads s)))]
       \<and> leads (fst (resendEmail sb s)) = leads s
       \<and> (\<forall>r. fst (sendConfirmationEmail sb (payload (last (leads s)))) = Inr r \<longrightarrow>
             (success r \<longrightarrow> emailError (fst (resendEmail sb s)) = None)
           \<and> (\<not> success r \<longrightarrow>
                 emailError (fst (resendEmail sb s)) = error r \<and> error r \<noteq> None))
       \<and> (\<exists>r. fst (sendConfirmationEmail sb (payload (last (leads s)))) = Inr r)
       \<and> isResendingEmail (fst (resendEmail sb s)) = False"
proof -
  let ?x = "sendConfirmationEmail_settled (functions_invoke sb (payload (last (leads s))))"
  have wf: "well_formed_result ?x"
    by (rule sendConfirmationEmail_settled_wf)
  then obtain r where r: "?x = Inr r"
    using wf_not_Inl by blast
  have fst_eq: "fst (sendConfirmationEmail sb (payload (last (leads s)))) = Inr r"
    using r by (simp add: fst_sendConfirmationEmail payload_payload)
  have run: "resendEmail sb s =
      (resendEmail_resume (s\<lparr>isResendingEmail := True, emailError := None\<rparr>) (Inr r),
       [InvokeSendConfirmation (payload (last (leads s)))])"
    using assms r by (simp add: resendEmail_nonempty)
  have ok: "success r \<Longrightarrow> emailError (fst (resendEmail sb s)) = None"
    by (simp add: run resendEmail_resume_def Let_def)
  have wfr: "well_formed_result (Inr r)"
    using wf r by simp
  have ko: "emailError (fst (resendEmail sb s)) = error r \<and> error r \<noteq> None"
    if ns: "\<not> success r"
  proof -
    obtain m where m: "error r = Some m" "js_text_truthy m"
      using wf_Inr_failure [OF wfr ns] by blast
    show ?thesis
      using ns m by (simp add: run resendEmail_resume_def Let_def)
  qed
  have "leads (fst (resendEmail sb s)) = leads s"
    by (simp add: run resendEmail_resume_def Let_def)
  moreover have "isResendingEmail (fst (resendEmail sb s)) = False"
    by (simp add: run resendEmail_resume_def Let_def)
  moreover have "snd (resendEmail sb s) = [InvokeSendConfirmation (payload (last (leads s)))]"
    by (simp add: run)
  moreover have "\<forall>r'. fst (sendConfirmationEmail sb (payload (last (leads s)))) = Inr r' \<longrightarrow>
             (success r' \<longrightarrow> emailError (fst (resendEmail sb s)) = None)
           \<and> (\<not> success r' \<longrightarrow>
                 emailError (fst (resendEmail sb s)) = error r' \<and> error r' \<noteq> None)"
    using ok ko by (simp add: fst_eq)
  moreover have "\<exists>r'. fst (sendConfirmationEmail sb (payload (last (leads s)))) = Inr r'"
    using fst_eq by blast
  ultimately show ?thesis
    by blast
qed

theorem resendEmail_last_lead_witness:
  "leads ana_pending \<noteq> []
   \<and> snd (resendEmail (remote (Resolved Null) (Resolved (failure ''quota''))) ana_pending)
       = [InvokeSendConfirmation ana]
   \<and> leads (fst (resendEmail (remote (Resolved Null) (Resolved (failure ''quota''))) ana_pending))
       = leads ana_pending
   \<and> fst (sendConfirmationEmail (remote (Resolved Null) (Resolved (failure ''quota'')))
        (payload (last (leads ana_pending)))) = Inr \<lparr>success = False, error = Some (Str ''quota'')\<rparr>
   \<and> emailError (fst (resendEmail (remote (Resolved Null) (Resolved (failure ''quota''))) ana_pending))
       = Some (Str ''quota'')
   \<and> fst (sendConfirmationEmail (remote (Resolved Null) (Resolved Null))
        (payload (last (leads ana_pending)))) = Inr \<lparr>success = True, error = None\<rparr>
   \<and> emailError (fst (resendEmail (remote (Resolved Null) (Resolved Null)) ana_pending)) = None"
proof -
  have n: "leads ana_pending \<noteq> []"
    by (simp add: ana_pending_def)
  have r1: "fst (sendConfirmationEmail (remote (Resolved Null) (Resolved (failure ''quota'')))
        (payload (last (leads ana_pending)))) = Inr \<lparr>success = False, error = Some (Str ''quota'')\<rparr>"
    by (simp add: ana_pending_def example_defs handler_defs)
  have r2: "fst (sendConfirmationEmail (remote (Resolved Null) (Resolved Null))
        (payload (last (leads ana_pending)))) = Inr \<lparr>success = True, error = None\<rparr>"
    by (simp add: ana_pending_def example_defs handler_defs)
  have p: "payload (last (leads ana_pending)) = ana"
    by (simp add: ana_pending_def example_defs payload_def)
  show ?thesis
    using resendEmail_last_lead [OF n, of "remote (Resolved Null) (Resolved (failure ''quota''))"]
      resendEmail_last_lead [OF n, of "remote (Resolved Null) (Resolved Null)"]
      n r1 r2 p
    by simp
qed

text \<open>
  Claim C6. When the validator returns a non-empty list for the form's data,
  \<^verbatim>\<open>handleSubmit\<close> stores that list in \<^verbatim>\<open>validationErrors\<close>, so that
  \<^verbatim>\<open>getFieldError\<close> yields a message of that field for every field the list names,
  issues no remote call at all, and leaves \<^verbatim>\<open>leads\<close> unchanged.
\<close>

theorem handleSubmit_invalid:
  assumes "validateLeadForm (formData s) \<noteq> []"
  shows "snd (handleSubmit validateLeadForm sb now s) = []
       \<and> validationErrors (fst (handleSubmit validateLeadForm sb now s)) =
           validateLeadForm (formData s)
       \<and> (\<forall>e\<in>set (validateLeadForm (formData s)).
             \<exists>e'\<in>set (validateLeadForm (formData s)). field e' = field e \<and>
               getFieldError (fst (handleSubmit validateLeadForm sb now s)) (field e) =
                 Some (message e'))
       \<and> leads (fst (handleSubmit validateLeadForm sb now s)) = leads s
       \<and> submitted (fst (handleSubmit validateLeadForm sb now s)) = submitted s
       \<and> isSubmitting (fst (handleSubmit validateLeadForm sb now s)) = isSubmitting s
       \<and> formData (fst (handleSubmit validateLeadForm sb now s)) = formData s"
proof -
  have run: "handleSubmit validateLeadForm sb now s =
      (s\<lparr>leadError := None, emailError := None,
         validationErrors := validateLeadForm (formData s)\<rparr>, [])"
    using assms by (simp add: handleSubmit_def handleSubmit_begin_invalid)
  have "\<exists>e'\<in>set (validateLeadForm (formData s)). field e' = field e \<and>
      getFieldError (fst (handleSubmit validateLeadForm sb now s)) (field e) = Some (message e')"
    if "e \<in> set (validateLeadForm (formData s))" for e
    using find_field_Some [OF that] by (auto simp: run getFieldError_def)
  then show ?thesis
    by (simp add: run)
qed

theorem handleSubmit_invalid_witness:
  "require_name (formData initial_state) \<noteq> []
   \<and> snd (handleSubmit require_name (remote (Resolved Null) (Resolved Null)) ''T'' initial_state) = []
   \<and> validationErrors
        (fst (handleSubmit require_name (remote (Resolved Null) (Resolved Null)) ''T'' initial_state))
       = [\<lparr>field = ''name'', message = ''Name is required''\<rparr>]
   \<and> getFieldError
        (fst (handleSubmit require_name (remote (Resolved Null) (Resolved Null)) ''T'' initial_state))
        ''name'' = Some ''Name is required''
   \<and> leads (fst (handleSubmit require_name (remote (Resolved Null) (Resolved Null)) ''T''
        initial_state)) = []"
proof -
  have i: "require_name (formData initial_state) \<noteq> []"
    by (simp add: require_name_def initial_state_def)
  have v: "require_name (formData initial_state) = [\<lparr>field = ''name'', message = ''Name is required''\<rparr>]"
    by (simp add: require_name_def initial_state_def)
  show ?thesis
    using handleSubmit_invalid [of require_name initial_state
        "remote (Resolved Null) (Resolved Null)" "''T''", OF i] i
    by (simp add: v) (simp add: initial_state_def)
qed

text \<open>
  Claim C7. Whatever the remote operation does (it resolves with any \<^verbatim>\<open>error\<close> field
  or rejects with any value), \<^verbatim>\<open>saveLead\<close> and \<^verbatim>\<open>sendConfirmationEmail\<close> return a
  result whose \<^verbatim>\<open>error\<close> is present only when \<^verbatim>\<open>success\<close> is false, and absent
  when \<^verbatim>\<open>success\<close> is true.
\<close>

theorem wrappers_result_invariant:
  "(\<exists>r. fst (saveLead sb data) = Inr r
        \<and> (error r \<noteq> None \<longrightarrow> \<not> success r) \<and> (success r \<longrightarrow> error r = None))
 \<and> (\<exists>r. fst (sendConfirmationEmail sb data) = Inr r
        \<and> (error r \<noteq> None \<longrightarrow> \<not> success r) \<and> (success r \<longrightarrow> error r = None))"
proof -
  have inv: "\<exists>r. x = Inr r \<and> (error r \<noteq> None \<longrightarrow> \<not> success r) \<and> (success r \<longrightarrow> error r = None)"
    if "well_formed_result x" for x
    using that by (cases x) (auto simp: well_formed_result_def)
  show ?thesis
    using inv [OF saveLead_settled_wf] inv [OF sendConfirmationEmail_settled_wf]
    by (simp add: fst_saveLead fst_sendConfirmationEmail)
qed

theorem wrappers_result_invariant_witness:
  "fst (saveLead (remote (Resolved (failure ''duplicate key'')) (Resolved Null)) ana)
     = Inr \<lparr>success = False, error = Some (Str ''duplicate key'')\<rparr>
 \<and> error \<lparr>success = False, error = Some (Str ''duplicate key'')\<rparr> \<noteq> None
 \<and> \<not> success \<lparr>success = False, error = Some (Str ''duplicate key'')\<rparr>
 \<and> fst (sendConfirmationEmail (remote (Resolved (failure ''duplicate key'')) (Resolved Null)) ana)
     = Inr \<lparr>success = True, error = None\<rparr>
 \<and> success \<lparr>success = True, error = None\<rparr>
 \<and> error \<lparr>success = True, error = None\<rparr> = None"
  using wrappers_result_invariant
    [of "remote (Resolved (failure ''duplicate key'')) (Resolved Null)" ana]
  by (simp add: example_defs handler_defs)







text \<open>
  Claim C5. In every configuration the component reaches from its initial state by
  user actions on the rendered controls and by settling of outstanding calls (each
  synchronous segment of a handler taking effect before the next event), at most one
  call started by \<^verbatim>\<open>resendEmail\<close> is outstanding, and \<^verbatim>\<open>isResendingEmail\<close> is
  true exactly then. While it is true the "Retry Email" control cannot fire, and no
  event whatsoever raises the number of outstanding resend calls.
\<close>

theorem single_resend_in_flight:
  assumes "run validateLeadForm evs initial_config = Some c"
  shows "resends_in_flight c \<le> 1
       \<and> isResendingEmail (ui c) = (resends_in_flight c = 1)
       \<and> (isResendingEmail (ui c) \<longrightarrow>
            fire validateLeadForm Retry c = None
          \<and> (\<forall>ev c'. fire validateLeadForm ev c = Some c' \<longrightarrow>
                resends_in_flight c' \<le> resends_in_flight c))"
proof -
  have agree: "resend_flag_agrees c"
    using run_resend_flag_agrees [OF assms initial_resend_flag_agrees] .
  have blocked: "fire validateLeadForm Retry c = None" if "isResendingEmail (ui c)"
    using that by (rule fire_Retry_blocked)
  have "resends_in_flight c' \<le> resends_in_flight c"
    if "isResendingEmail (ui c)" "fire validateLeadForm ev c = Some c'" for ev c'
  proof (cases "ev = Retry")
    case True
    then show ?thesis using blocked that by simp
  next
    case False
    then show ?thesis using fire_resends [OF that(2)] by blast
  qed
  then show ?thesis
    using agree blocked by (auto simp: resend_flag_agrees_def split: if_splits)
qed

theorem single_resend_in_flight_witness:
  "run accept_all retry_run initial_config = Some retry_outstanding
 \<and> isResendingEmail (ui retry_outstanding)
 \<and> resends_in_flight retry_outstanding = 1
 \<and> fire accept_all Retry retry_outstanding = None"
  using single_resend_in_flight [OF retry_run_result] retry_run_result
  by (simp add: retry_outstanding_def)

text \<open>
  Claim C10. With an empty \<^verbatim>\<open>leads\<close>, \<^verbatim>\<open>resendEmail\<close> returns at once: no remote
  call is issued and the whole state is the one it started from.
\<close>

theorem resendEmail_empty_log:
  assumes "leads s = []"
  shows "resendEmail sb s = (s, [])"
  using assms by (simp add: resendEmail_def resendEmail_begin_empty)

theorem resendEmail_empty_log_witness:
  "leads initial_state = []
   \<and> resendEmail (remote (Resolved Null) (Resolved Null)) initial_state = (initial_state, [])"
proof -
  have e: "leads initial_state = []"
    by (simp add: initial_state_def)
  show ?thesis
    using resendEmail_empty_log [OF e, of "remote (Resolved Null) (Resolved Null)"] e by simp
qed

end
